theory Spec2Isabelle
  imports Main
begin

section \<open>Strings as the source uses them\<close>

text \<open>
  A JavaScript string is modelled as a \<^typ>\<open>string\<close>, one \<^typ>\<open>char\<close> per code unit.
  The helpers below are the string methods that \<^verbatim>\<open>FileRouter.ts\<close> calls, with the
  behaviour the language gives them.
\<close>

definition startsWith :: "string \<Rightarrow> string \<Rightarrow> bool" where
  "startsWith s p = (take (length p) s = p)"

definition endsWith :: "string \<Rightarrow> string \<Rightarrow> bool" where
  "endsWith s p = (length p \<le> length s \<and> drop (length s - length p) s = p)"

text \<open>
  \<^verbatim>\<open>s.substring(a, b)\<close>: both indices are clamped to \<open>[0, s.length]\<close> and swapped when
  the first exceeds the second. The indices are integers because the source computes
  them as \<^verbatim>\<open>s.length - 2\<close> and \<^verbatim>\<open>s.length - 1\<close>.
\<close>

definition substring :: "string \<Rightarrow> int \<Rightarrow> int \<Rightarrow> string" where
  "substring s a b =
     (let n = int (length s);
          a' = min (max a 0) n;
          b' = min (max b 0) n;
          lo = min a' b';
          hi = max a' b'
      in take (nat (hi - lo)) (drop (nat lo) s))"

text \<open>\<^verbatim>\<open>s.split(c)\<close> for a one-character separator: the pieces between separators, empty ones kept.\<close>

fun splitOn :: "char \<Rightarrow> string \<Rightarrow> string list" where
  "splitOn c [] = [[]]"
| "splitOn c (x # xs) =
     (if x = c then [] # splitOn c xs
      else (case splitOn c xs of
              [] \<Rightarrow> [[x]]
            | y # ys \<Rightarrow> (x # y) # ys))"

text \<open>\<^verbatim>\<open>parts.join(sep)\<close> on an array of strings.\<close>

fun joinWith :: "string \<Rightarrow> string list \<Rightarrow> string" where
  "joinWith sep [] = []"
| "joinWith sep [x] = x"
| "joinWith sep (x # y # ys) = x @ sep @ joinWith sep (y # ys)"

text \<open>The character class \<^verbatim>\<open>\w\<close> of a regular expression without the unicode flag.\<close>

definition isWordChar :: "char \<Rightarrow> bool" where
  "isWordChar c =
     (c \<in> set ''abcdefghijklmnopqrstuvwxyzABCDEFGHIJKLMNOPQRSTUVWXYZ0123456789_'')"

text \<open>\<^verbatim>\<open>/^\w+$/.test(s)\<close>\<close>

definition matchesWord :: "string \<Rightarrow> bool" where
  "matchesWord s = (s \<noteq> [] \<and> list_all isWordChar s)"

text \<open>\<^verbatim>\<open>/^\[\.{3}\w+\]$/.test(s)\<close>\<close>

definition matchesRest :: "string \<Rightarrow> bool" where
  "matchesRest s =
     (case s of
        c1 # c2 # c3 # c4 # rest \<Rightarrow>
          c1 = CHR ''['' \<and> c2 = CHR ''.'' \<and> c3 = CHR ''.'' \<and> c4 = CHR ''.'' \<and>
          rest \<noteq> [] \<and> last rest = CHR '']'' \<and> matchesWord (butlast rest)
      | _ \<Rightarrow> False)"

text \<open>\<^verbatim>\<open>/^\[\w+\]$/.test(s)\<close>\<close>

definition matchesDynamic :: "string \<Rightarrow> bool" where
  "matchesDynamic s =
     (case s of
        c1 # rest \<Rightarrow>
          c1 = CHR ''['' \<and> rest \<noteq> [] \<and> last rest = CHR '']'' \<and> matchesWord (butlast rest)
      | _ \<Rightarrow> False)"

section \<open>Segments\<close>

datatype Extension = tsx | jsx | ts | js

text \<open>
  The union \<^verbatim>\<open>Segment = PathSegment | HandleSegment\<close>. TypeScript discriminates the six
  variants by their \<^verbatim>\<open>type\<close> field, so they are the constructors of one datatype; the
  two sub-unions are predicates on it.
\<close>

datatype Segment =
    Literal string
  | DynamicParam string
  | OptionalParam string
  | RestParam string
  | ServerHandle Extension
  | PageHandle Extension

fun isHandleSegment :: "Segment \<Rightarrow> bool" where
  "isHandleSegment (ServerHandle _) = True"
| "isHandleSegment (PageHandle _) = True"
| "isHandleSegment _ = False"

definition isPathSegment :: "Segment \<Rightarrow> bool" where
  "isPathSegment seg = (\<not> isHandleSegment seg)"

text \<open>\<^verbatim>\<open>["ts", "js", "tsx", "jsx"].includes(ext)\<close>, with the extension it names.\<close>

definition extensionOf :: "string \<Rightarrow> Extension option" where
  "extensionOf ext =
     (if ext = ''ts'' then Some ts
      else if ext = ''js'' then Some js
      else if ext = ''tsx'' then Some tsx
      else if ext = ''jsx'' then Some jsx
      else None)"

fun extensionText :: "Extension \<Rightarrow> string" where
  "extensionText tsx = ''tsx''"
| "extensionText jsx = ''jsx''"
| "extensionText ts = ''ts''"
| "extensionText js = ''js''"

section \<open>extractSegments\<close>

text \<open>\<^verbatim>\<open>path.replace(/(^\/)|(\/$)/g, "")\<close>: one leading and one trailing slash are removed.\<close>

definition trimSlashes :: "string \<Rightarrow> string" where
  "trimSlashes path =
     (let p1 = (case path of [] \<Rightarrow> [] | c # cs \<Rightarrow> if c = CHR ''/'' then cs else path)
      in if p1 \<noteq> [] \<and> last p1 = CHR ''/'' then butlast p1 else p1)"

text \<open>The callback of \<^verbatim>\<open>segmentStrings.map\<close>: one component to a segment, or \<^verbatim>\<open>null\<close>.\<close>

definition classifySegment :: "string \<Rightarrow> Segment option" where
  "classifySegment s =
     (if startsWith s ''+'' then
        (let parts = splitOn CHR ''.'' s in
         if length parts \<noteq> 2 then None
         else (let name = parts ! 0; ext = parts ! 1 in
               case extensionOf ext of
                 None \<Rightarrow> None
               | Some e \<Rightarrow>
                   if name = ''+server'' then Some (ServerHandle e)
                   else if name = ''+page'' then Some (PageHandle e)
                   else None))
      else if startsWith s ''[['' \<and> endsWith s '']]'' \<and> length s \<ge> 5
              \<and> (let name = substring s 2 (int (length s) - 2)
                   in name \<noteq> [] \<and> \<not> startsWith name ''...'')
           then Some (OptionalParam (substring s 2 (int (length s) - 2)))
      else if matchesRest s \<and> substring s 4 (int (length s) - 1) \<noteq> []
           then Some (RestParam s)
      else if matchesDynamic s \<and> substring s 1 (int (length s) - 1) \<noteq> []
           then Some (DynamicParam (substring s 1 (int (length s) - 1)))
      else if matchesWord s then Some (Literal s)
      else None)"

text \<open>The components that are classified: split on the slash, empty pieces dropped.\<close>

definition segmentStrings :: "string \<Rightarrow> string list" where
  "segmentStrings path = filter (\<lambda>s. s \<noteq> []) (splitOn CHR ''/'' (trimSlashes path))"

definition extractSegments :: "string \<Rightarrow> Segment list option" where
  "extractSegments path =
     (if trimSlashes path = [] then Some []
      else if segmentStrings path = [] then Some []
      else (let segments = map classifySegment (segmentStrings path) in
            if list_ex (\<lambda>seg. seg = None) segments then None
            else Some (map the segments)))"

section \<open>extractRoute\<close>

text \<open>
  The source reads \<^verbatim>\<open>segs.at(-1)?.type\<close> before it tests \<^verbatim>\<open>!segs\<close>. When
  \<^verbatim>\<open>extractSegments\<close> returned \<^verbatim>\<open>null\<close> the property access \<^verbatim>\<open>segs.at\<close> throws a
  \<^verbatim>\<open>TypeError\<close>: the optional chaining guards the result of the call, not its receiver.
\<close>

datatype Thrown = TypeError

definition extractRoute :: "string \<Rightarrow> Thrown + Segment list option" where
  "extractRoute path =
     (case extractSegments path of
        None \<Rightarrow> Inl TypeError
      | Some segs \<Rightarrow>
          if segs = [] \<or> \<not> isHandleSegment (last segs) then Inr None
          else Inr (Some segs))"

section \<open>segmentsToPath\<close>

text \<open>
  The callback of \<^verbatim>\<open>segments.map\<close> in \<^verbatim>\<open>segmentsToPath\<close>. Its \<^verbatim>\<open>switch\<close> has the four
  path-segment cases only. The caller passes \<^verbatim>\<open>routeSegments.slice(0, -1) as PathSegment[]\<close>,
  a cast that is erased at run time, so a handle segment can reach the callback; no case
  matches it and the callback returns \<^verbatim>\<open>undefined\<close>, here \<open>None\<close>.
\<close>

fun segmentComponent :: "Segment \<Rightarrow> string option" where
  "segmentComponent (Literal text) = Some text"
| "segmentComponent (DynamicParam text) = Some (CHR '':'' # text)"
| "segmentComponent (OptionalParam text) = Some (CHR '':'' # text @ ''?'')"
| "segmentComponent (RestParam text) =
     Some (CHR '':'' # substring text 4 (int (length text) - 1) @ ''*'')"
| "segmentComponent (ServerHandle _) = None"
| "segmentComponent (PageHandle _) = None"

text \<open>\<^verbatim>\<open>Array.prototype.join\<close> writes \<^verbatim>\<open>undefined\<close> as the empty string.\<close>

definition joinComponents :: "string option list \<Rightarrow> string" where
  "joinComponents cs = joinWith ''/'' (map (\<lambda>c. case c of None \<Rightarrow> [] | Some t \<Rightarrow> t) cs)"

text \<open>
  \<^verbatim>\<open>path.replace(/\/\//g, "/")\<close>: one left-to-right pass; each match of two slashes is
  replaced by one and the scan resumes after the match.
\<close>

fun replaceDoubleSlash :: "string \<Rightarrow> string" where
  "replaceDoubleSlash (a # b # rest) =
     (if a = CHR ''/'' \<and> b = CHR ''/'' then CHR ''/'' # replaceDoubleSlash rest
      else a # replaceDoubleSlash (b # rest))"
| "replaceDoubleSlash [a] = [a]"
| "replaceDoubleSlash [] = []"

definition segmentsToPath :: "Segment list \<Rightarrow> string" where
  "segmentsToPath segments =
     (if segments = [] then ''/''
      else replaceDoubleSlash (CHR ''/'' # joinComponents (map segmentComponent segments)))"

section \<open>Run-time values of loaded modules\<close>

text \<open>
  The values a module can export, as far as \<^verbatim>\<open>fromFiles\<close> inspects them: their
  truthiness, their \<^verbatim>\<open>typeof\<close>, their \<^verbatim>\<open>pipe\<close> property, and what a call without
  arguments does. A function carries the outcome of that call; an object carries its
  properties (own or inherited, flattened); \<open>JsErrorObject\<close> is an instance of
  \<^verbatim>\<open>Error\<close> with its \<^verbatim>\<open>message\<close>. A call that never returns is outside this model.
\<close>

datatype JsValue =
    JsUndefined
  | JsNull
  | JsBoolean bool
  | JsNumber int
  | JsString string
  | JsFunction CallOutcome
  | JsObject "(string \<times> JsValue) list"
  | JsErrorObject string
and CallOutcome =
    Returns JsValue
  | Throws JsValue

text \<open>What \<^verbatim>\<open>if (v)\<close> and \<^verbatim>\<open>!v\<close> test.\<close>

fun truthy :: "JsValue \<Rightarrow> bool" where
  "truthy JsUndefined = False"
| "truthy JsNull = False"
| "truthy (JsBoolean b) = b"
| "truthy (JsNumber n) = (n \<noteq> 0)"
| "truthy (JsString s) = (s \<noteq> [])"
| "truthy (JsFunction _) = True"
| "truthy (JsObject _) = True"
| "truthy (JsErrorObject _) = True"

fun typeofJs :: "JsValue \<Rightarrow> string" where
  "typeofJs JsUndefined = ''undefined''"
| "typeofJs JsNull = ''object''"
| "typeofJs (JsBoolean _) = ''boolean''"
| "typeofJs (JsNumber _) = ''number''"
| "typeofJs (JsString _) = ''string''"
| "typeofJs (JsFunction _) = ''function''"
| "typeofJs (JsObject _) = ''object''"
| "typeofJs (JsErrorObject _) = ''object''"

text \<open>
  \<^verbatim>\<open>v.pipe\<close> and \<^verbatim>\<open>module[name]\<close>: a missing property reads as \<^verbatim>\<open>undefined\<close>. The source
  reads a property only of a value it has tested to be truthy, so the read never throws.
\<close>

fun getProperty :: "JsValue \<Rightarrow> string \<Rightarrow> JsValue" where
  "getProperty (JsObject props) k = (case map_of props k of None \<Rightarrow> JsUndefined | Some v \<Rightarrow> v)"
| "getProperty _ k = JsUndefined"

text \<open>\<^verbatim>\<open>f()\<close>: calling a value that is not a function throws a \<^verbatim>\<open>TypeError\<close>.\<close>

fun call :: "JsValue \<Rightarrow> CallOutcome" where
  "call (JsFunction outcome) = outcome"
| "call _ = Throws (JsErrorObject ''not a function'')"

text \<open>A module namespace object: export names with their values.\<close>

type_synonym Module = "(string \<times> JsValue) list"

definition moduleGet :: "Module \<Rightarrow> string \<Rightarrow> JsValue" where
  "moduleGet module k = (case map_of module k of None \<Rightarrow> JsUndefined | Some v \<Rightarrow> v)"

section \<open>The router under construction\<close>

text \<open>
  \<^verbatim>\<open>HttpRouter\<close> is an external library. The builder only ever extends a router by one
  registration, so a router is modelled as the sequence of registrations made so far:
  \<^verbatim>\<open>HttpRouter.get(router, path, h)\<close> and its siblings add a \<open>MethodRoute\<close>,
  \<^verbatim>\<open>HttpRouter.all(router, path, h)\<close> adds an \<open>AllRoute\<close>, \<^verbatim>\<open>HttpRouter.empty()\<close> is \<open>[]\<close>.
\<close>

datatype Method = GET | POST | PUT | DELETE | PATCH | OPTIONS | HEAD

fun methodName :: "Method \<Rightarrow> string" where
  "methodName GET = ''GET''"
| "methodName POST = ''POST''"
| "methodName PUT = ''PUT''"
| "methodName DELETE = ''DELETE''"
| "methodName PATCH = ''PATCH''"
| "methodName OPTIONS = ''OPTIONS''"
| "methodName HEAD = ''HEAD''"

definition httpMethods :: "Method list" where
  "httpMethods = [GET, POST, PUT, DELETE, PATCH, OPTIONS, HEAD]"

text \<open>
  A handler is either a value a module exported, or
  \<^verbatim>\<open>Effect.succeed(HttpServerResponse.text(content))\<close>: a plain-text response with the
  default (success) status.
\<close>

datatype Handler = Exported JsValue | SucceedText string

datatype Registration =
    MethodRoute Method string Handler
  | AllRoute string Handler

type_synonym Router = "Registration list"

section \<open>fromFiles\<close>

text \<open>
  What \<^verbatim>\<open>fromFiles\<close> takes from its surroundings: \<^verbatim>\<open>NPath.resolve\<close>, \<^verbatim>\<open>NPath.join\<close>,
  the recursive \<^verbatim>\<open>fs.readDirectory\<close> (\<open>Inl\<close> is the reason of a \<^verbatim>\<open>PlatformError\<close>), the
  dynamic \<^verbatim>\<open>import()\<close> (\<open>Inl\<close> is the value the import was rejected with) and the
  conversion \<^verbatim>\<open>String(e)\<close>, which returns a string for every value of this model.
\<close>

record Env =
  resolve :: "string \<Rightarrow> string"
  joinPath :: "string \<Rightarrow> string \<Rightarrow> string"
  readDirectory :: "string \<Rightarrow> string + string list"
  importModule :: "string \<Rightarrow> JsValue + Module"
  stringOf :: "JsValue \<Rightarrow> string"

text \<open>
  How the effect can end without a router: the three failures of its error channel, or a
  defect when the generator body throws.
\<close>

datatype BuildFailure =
    PlatformError string
  | InvalidModuleError string
  | ImportError JsValue string
  | Defect Thrown

text \<open>
  \<^verbatim>\<open>v && (typeof v === 'function' || (v && typeof v.pipe === 'function'))\<close>, the test
  applied to every method export and to the default export of a server module.
\<close>

definition isHandlerValue :: "JsValue \<Rightarrow> bool" where
  "isHandlerValue v =
     (truthy v \<and> (typeofJs v = ''function''
                  \<or> (truthy v \<and> typeofJs (getProperty v ''pipe'') = ''function'')))"

text \<open>
  The loop \<^verbatim>\<open>for (const method of httpMethods)\<close>, on the pair of the router and the flag
  \<^verbatim>\<open>foundMethodSpecificHandler\<close>.
\<close>

fun registerMethods :: "Module \<Rightarrow> string \<Rightarrow> Method list \<Rightarrow> Router \<times> bool \<Rightarrow> Router \<times> bool" where
  "registerMethods module httpPath [] st = st"
| "registerMethods module httpPath (m # ms) (router, found) =
     (let handlerCandidate = moduleGet module (methodName m) in
      if isHandlerValue handlerCandidate
      then registerMethods module httpPath ms
             (router @ [MethodRoute m httpPath (Exported handlerCandidate)], True)
      else registerMethods module httpPath ms (router, found))"

text \<open>The branch \<^verbatim>\<open>handleSegment.type === "ServerHandle"\<close>.\<close>

definition serverHandle :: "Module \<Rightarrow> string \<Rightarrow> string \<Rightarrow> Router \<Rightarrow> BuildFailure + Router" where
  "serverHandle module httpPath absoluteFilePath router =
     (let defaultExport = moduleGet module ''default'';
          hasPotentiallyValidDefaultExport = isHandlerValue defaultExport;
          (router', foundMethodSpecificHandler) =
             registerMethods module httpPath httpMethods (router, False)
      in if \<not> foundMethodSpecificHandler then
           (if hasPotentiallyValidDefaultExport
            then Inr (router' @ [AllRoute httpPath (Exported defaultExport)])
            else Inl (InvalidModuleError
                   (''No valid route handlers (method-specific functions or default export) found in ''
                    @ absoluteFilePath)))
         else Inr router')"

text \<open>\<^verbatim>\<open>e instanceof Error ? e.message : String(e)\<close>\<close>

definition errorText :: "Env \<Rightarrow> JsValue \<Rightarrow> string" where
  "errorText env e = (case e of JsErrorObject message \<Rightarrow> message | _ \<Rightarrow> stringOf env e)"

text \<open>
  The branch for a page handle. A failure yielded inside the \<^verbatim>\<open>try\<close> block ends the
  generator without throwing into it, so the \<^verbatim>\<open>catch\<close> clause sees only what the call
  of the default export throws. The tests \<^verbatim>\<open>typeof content !== 'string'\<close> and
  \<^verbatim>\<open>typeof module.default === "string"\<close> are the case distinctions on \<open>JsString\<close>.
\<close>

definition pageHandle :: "Env \<Rightarrow> Module \<Rightarrow> string \<Rightarrow> string \<Rightarrow> Router \<Rightarrow> BuildFailure + Router" where
  "pageHandle env module httpPath absoluteFilePath router =
     (let d = moduleGet module ''default'' in
      if typeofJs d = ''function'' then
        (case call d of
           Throws e \<Rightarrow>
             Inl (InvalidModuleError
                   (''Error executing default export function in '' @ absoluteFilePath
                    @ '' for +page.tsx: '' @ errorText env e))
         | Returns content \<Rightarrow>
             (case content of
                JsString text \<Rightarrow> Inr (router @ [MethodRoute GET httpPath (SucceedText text)])
              | _ \<Rightarrow>
                Inl (InvalidModuleError
                      (''Default export function in '' @ absoluteFilePath
                       @ '' for +page.tsx did not return a string.''))))
      else (case d of
              JsString text \<Rightarrow> Inr (router @ [MethodRoute GET httpPath (SucceedText text)])
            | _ \<Rightarrow>
              Inl (InvalidModuleError
                    (''Default export in '' @ absoluteFilePath
                     @ '' for +page.tsx is not a string or a function returning a string.''))))"

fun isPageHandle :: "Segment \<Rightarrow> bool" where
  "isPageHandle (PageHandle _) = True"
| "isPageHandle _ = False"

fun isServerHandle :: "Segment \<Rightarrow> bool" where
  "isServerHandle (ServerHandle _) = True"
| "isServerHandle _ = False"

text \<open>
  What follows the import of one route file: the two checks for a missing default export
  (the broad one, then the one for page handles), then the branch on the handle kind.
\<close>

definition validateModule ::
  "Env \<Rightarrow> Segment \<Rightarrow> string \<Rightarrow> string \<Rightarrow> Module \<Rightarrow> Router \<Rightarrow> BuildFailure + Router" where
  "validateModule env handleSegment httpPath absoluteFilePath module router =
     (let missing = InvalidModuleError
                      (''Missing default export in '' @ absoluteFilePath @ '' for +page.tsx'') in
      if \<not> truthy (moduleGet module ''default'')
         \<and> \<not> list_ex (\<lambda>key. key \<in> set (map methodName httpMethods)) (map fst module)
         \<and> isPageHandle handleSegment \<and> \<not> truthy (moduleGet module ''default'')
      then Inl missing
      else if isPageHandle handleSegment \<and> \<not> truthy (moduleGet module ''default'')
      then Inl missing
      else if isServerHandle handleSegment
      then serverHandle module httpPath absoluteFilePath router
      else pageHandle env module httpPath absoluteFilePath router)"

text \<open>The body of \<^verbatim>\<open>for (const relativePath of files)\<close>.\<close>

definition processFile :: "Env \<Rightarrow> string \<Rightarrow> Router \<Rightarrow> string \<Rightarrow> BuildFailure + Router" where
  "processFile env absoluteScanDir router relativePath =
     (case extractRoute relativePath of
        Inl thrown \<Rightarrow> Inl (Defect thrown)
      | Inr None \<Rightarrow> Inr router
      | Inr (Some routeSegments) \<Rightarrow>
          if length routeSegments > 0 then
            (let handleSegment = last routeSegments;
                 pathSegments = butlast routeSegments;
                 httpPath = segmentsToPath pathSegments;
                 absoluteFilePath = joinPath env absoluteScanDir relativePath
             in case importModule env absoluteFilePath of
                  Inl error \<Rightarrow> Inl (ImportError error absoluteFilePath)
                | Inr module \<Rightarrow>
                    validateModule env handleSegment httpPath absoluteFilePath module router)
          else Inr router)"

fun fromFilesLoop :: "Env \<Rightarrow> string \<Rightarrow> Router \<Rightarrow> string list \<Rightarrow> BuildFailure + Router" where
  "fromFilesLoop env absoluteScanDir router [] = Inr router"
| "fromFilesLoop env absoluteScanDir router (relativePath # files) =
     (case processFile env absoluteScanDir router relativePath of
        Inl failure \<Rightarrow> Inl failure
      | Inr router' \<Rightarrow> fromFilesLoop env absoluteScanDir router' files)"

definition fromFiles :: "Env \<Rightarrow> string \<Rightarrow> BuildFailure + Router" where
  "fromFiles env scanDir =
     (let absoluteScanDir = resolve env scanDir in
      case readDirectory env absoluteScanDir of
        Inl reason \<Rightarrow> Inl (PlatformError reason)
      | Inr files \<Rightarrow> fromFilesLoop env absoluteScanDir [] files)"

section \<open>Notions of the specification\<close>

text \<open>
  A Route as the specification defines it: zero or more path segments followed by exactly
  one handle segment, which is the last element.
\<close>

definition isRoute :: "Segment list \<Rightarrow> bool" where
  "isRoute segs =
     (segs \<noteq> [] \<and> list_all isPathSegment (butlast segs) \<and> isHandleSegment (last segs))"

definition dotCount :: "string \<Rightarrow> nat" where
  "dotCount s = length (filter (\<lambda>c. c = CHR ''.'') s)"

text \<open>
  Whether a registration answers requests of method \<open>m\<close> on the dispatch pattern \<open>p\<close>: a
  method route does so for its own method, a catch-all route for every method. A router
  none of whose registrations does so has no route for such a request.
\<close>

fun answers :: "Method \<Rightarrow> string \<Rightarrow> Registration \<Rightarrow> bool" where
  "answers m p (MethodRoute m' p' _) = (m' = m \<and> p' = p)"
| "answers m p (AllRoute p' _) = (p' = p)"

definition hasRoute :: "Router \<Rightarrow> Method \<Rightarrow> string \<Rightarrow> bool" where
  "hasRoute router m p = list_ex (answers m p) router"

text \<open>Whether a dispatch pattern contains two slashes in a row.\<close>

fun hasDoubleSlash :: "string \<Rightarrow> bool" where
  "hasDoubleSlash (a # b # rest) =
     ((a = CHR ''/'' \<and> b = CHR ''/'') \<or> hasDoubleSlash (b # rest))"
| "hasDoubleSlash [a] = False"
| "hasDoubleSlash [] = False"

text \<open>
  \<^verbatim>\<open>String(v)\<close> for the example directory: the decimal numeral of a number, a string as
  it is, the names of \<^verbatim>\<open>undefined\<close>, \<^verbatim>\<open>null\<close> and the booleans, \<^verbatim>\<open>Error: \<close> before the
  message of an error, \<^verbatim>\<open>[object Object]\<close> for a plain object. The model carries no source
  text of a function; the example prints it as a built-in one.
\<close>

function showNat :: "nat \<Rightarrow> string" where
  "showNat n =
     (if n < 10 then [char_of (48 + n)]
      else showNat (n div 10) @ [char_of (48 + n mod 10)])"
  by pat_completeness auto
termination
  by (relation "measure id") auto

declare showNat.simps [simp del]

fun exampleString :: "JsValue \<Rightarrow> string" where
  "exampleString JsUndefined = ''undefined''"
| "exampleString JsNull = ''null''"
| "exampleString (JsBoolean b) = (if b then ''true'' else ''false'')"
| "exampleString (JsNumber n) =
     (if n < 0 then CHR ''-'' # showNat (nat (- n)) else showNat (nat n))"
| "exampleString (JsString s) = s"
| "exampleString (JsFunction _) = ''function () { [native code] }''"
| "exampleString (JsObject _) = ''[object Object]''"
| "exampleString (JsErrorObject message) = ''Error: '' @ message"

text \<open>
  A directory for examples: \<open>files\<close> is the recursive listing, \<open>modules\<close> tells for an
  absolute file path what importing it gives. Paths are already absolute and normalised,
  so resolving changes nothing and joining puts a slash in between.
\<close>

definition exampleEnv :: "string list \<Rightarrow> (string \<times> (JsValue + Module)) list \<Rightarrow> Env" where
  "exampleEnv files modules =
     \<lparr> resolve = (\<lambda>dir. dir),
       joinPath = (\<lambda>dir rel. dir @ ''/'' @ rel),
       readDirectory = (\<lambda>dir. Inr files),
       importModule = (\<lambda>file. case map_of modules file of
                                  None \<Rightarrow> Inl (JsErrorObject ''Cannot find module'')
                                | Some outcome \<Rightarrow> outcome),
       stringOf = exampleString \<rparr>"

text \<open>
  The method exports of a server module that pass the handler test, in the order of
  \<open>httpMethods\<close>, and the method-specific registrations the specification asks for them.
\<close>

definition validMethods :: "Module \<Rightarrow> Method list" where
  "validMethods module =
     filter (\<lambda>m. isHandlerValue (moduleGet module (methodName m))) httpMethods"

definition methodRoutes :: "Module \<Rightarrow> string \<Rightarrow> Router" where
  "methodRoutes module httpPath =
     map (\<lambda>m. MethodRoute m httpPath (Exported (moduleGet module (methodName m))))
         (validMethods module)"

text \<open>
  An effect value as the repository's test modules export it
  (\<^verbatim>\<open>Effect.succeed(HttpServerResponse.text(label))\<close>): an object with a callable
  \<^verbatim>\<open>pipe\<close>, told apart by its label.
\<close>

definition effectValue :: "string \<Rightarrow> JsValue" where
  "effectValue label =
     JsObject [(''pipe'', JsFunction (Returns JsUndefined)), (''text'', JsString label)]"

section \<open>Facts about splitting and classification\<close>

lemma splitOn_nonempty: "splitOn c s \<noteq> []"
  by (induction s) (auto split: list.splits)

lemma joinWith_splitOn: "joinWith [c] (splitOn c s) = s"
proof (induction s)
  case Nil
  show ?case by simp
next
  case (Cons x xs)
  obtain y ys where sp: "splitOn c xs = y # ys"
    using splitOn_nonempty [of c xs] by (cases "splitOn c xs") auto
  show ?case
  proof (cases "x = c")
    case True
    with Cons sp show ?thesis by simp
  next
    case False
    with Cons sp show ?thesis by (cases ys) auto
  qed
qed

lemma length_splitOn: "length (splitOn c s) = Suc (length (filter (\<lambda>x. x = c) s))"
proof (induction s)
  case Nil
  show ?case by simp
next
  case (Cons x xs)
  obtain y ys where sp: "splitOn c xs = y # ys"
    using splitOn_nonempty [of c xs] by (cases "splitOn c xs") auto
  with Cons show ?case by auto
qed

lemma splitOn_two:
  assumes "length (splitOn c s) = 2"
  shows "s = (splitOn c s ! 0) @ [c] @ (splitOn c s ! 1)"
proof -
  obtain a b where ab: "splitOn c s = [a, b]"
    using assms by (cases "splitOn c s"; cases "tl (splitOn c s)") auto
  have "joinWith [c] [a, b] = s" using joinWith_splitOn [of c s] ab by simp
  then show ?thesis using ab by simp
qed

lemma extensionOf_Some: "extensionOf ext = Some e \<longleftrightarrow> ext = extensionText e"
  by (cases e) (auto simp: extensionOf_def)

lemma classify_plus:
  assumes "startsWith s ''+''" and "classifySegment s = Some seg"
  shows "\<exists>e. (s = ''+server.'' @ extensionText e \<and> seg = ServerHandle e)
           \<or> (s = ''+page.'' @ extensionText e \<and> seg = PageHandle e)"
proof -
  let ?parts = "splitOn CHR ''.'' s"
  from assms have len: "length ?parts = 2"
    by (auto simp: classifySegment_def Let_def split: if_splits)
  from assms len obtain e where e: "extensionOf (?parts ! 1) = Some e"
    by (auto simp: classifySegment_def Let_def split: if_splits option.splits)
  from assms len e have nm: "(?parts ! 0 = ''+server'' \<and> seg = ServerHandle e)
       \<or> (?parts ! 0 = ''+page'' \<and> seg = PageHandle e)"
    by (auto simp: classifySegment_def Let_def split: if_splits option.splits)
  have s: "s = (?parts ! 0) @ ''.'' @ (?parts ! 1)" using splitOn_two [OF len] by simp
  have ext: "?parts ! 1 = extensionText e" using e by (simp add: extensionOf_Some)
  from nm s ext show ?thesis by auto
qed

lemma classify_server: "classifySegment (''+server.'' @ extensionText e) = Some (ServerHandle e)"
  by (cases e) (simp_all add: classifySegment_def startsWith_def extensionOf_def)

lemma classify_page: "classifySegment (''+page.'' @ extensionText e) = Some (PageHandle e)"
  by (cases e) (simp_all add: classifySegment_def startsWith_def extensionOf_def)

lemma classify_plus_dots:
  assumes "startsWith s ''+''" and "dotCount s \<noteq> 1"
  shows "classifySegment s = None"
  using assms by (simp add: classifySegment_def length_splitOn dotCount_def)

lemma rejected_component:
  assumes "s \<in> set (segmentStrings p)" and "classifySegment s = None"
  shows "extractSegments p = None"
proof -
  have ne: "segmentStrings p \<noteq> []" using assms(1) by auto
  have tr: "trimSlashes p \<noteq> []"
  proof
    assume "trimSlashes p = []"
    then have "segmentStrings p = []" by (simp add: segmentStrings_def)
    with ne show False by simp
  qed
  have "None \<in> set (map classifySegment (segmentStrings p))"
    using assms by force
  then have "list_ex (\<lambda>seg. seg = None) (map classifySegment (segmentStrings p))"
    unfolding list_ex_iff by blast
  with ne tr show ?thesis by (simp add: extractSegments_def Let_def)
qed

lemma classify_optional_rest: "classifySegment (''[[...'' @ x @ '']]'') = None"
proof -
  let ?s = "''[[...'' @ x @ '']]''"
  have n: "nat (3 + int (length x)) = Suc (Suc (Suc (length x)))" by simp
  have sub: "substring ?s 2 (int (length ?s) - 2) = ''...'' @ x"
    by (simp add: substring_def Let_def n)
  show ?thesis
    unfolding classifySegment_def sub
    by (simp add: startsWith_def matchesRest_def matchesDynamic_def matchesWord_def
          isWordChar_def Let_def)
qed

lemma classify_empty_names:
  "classifySegment ''[[]]'' = None"
  "classifySegment ''[...]'' = None"
  "classifySegment ''[]'' = None"
  by (simp_all add: classifySegment_def startsWith_def endsWith_def matchesRest_def
        matchesDynamic_def matchesWord_def isWordChar_def)

lemma extractRoute_of_rejected: "extractSegments p = None \<Longrightarrow> extractRoute p = Inl TypeError"
  by (simp add: extractRoute_def)

text \<open>A classified component is a handle segment exactly when it begins with \<open>+\<close>.\<close>

lemma classify_handle_iff:
  assumes "classifySegment s = Some seg"
  shows "isHandleSegment seg \<longleftrightarrow> startsWith s ''+''"
proof (cases "startsWith s ''+''")
  case True
  from classify_plus [OF True assms] show ?thesis using True by auto
next
  case False
  with assms show ?thesis
    by (auto simp: classifySegment_def Let_def split: if_splits)
qed

lemma map_Some_the: "None \<notin> set xs \<Longrightarrow> map Some (map the xs) = xs"
  by (induction xs) auto

text \<open>An accepted parse has one segment per component, the classification of that component.\<close>

lemma extractSegments_classified:
  assumes "extractSegments p = Some r"
  shows "map Some r = map classifySegment (segmentStrings p)"
proof (cases "trimSlashes p = [] \<or> segmentStrings p = []")
  case True
  then have e: "segmentStrings p = []" by (auto simp: segmentStrings_def)
  have "r = []" using assms e by (simp add: extractSegments_def split: if_splits)
  with e show ?thesis by simp
next
  case False
  with assms have n: "\<not> list_ex (\<lambda>seg. seg = None) (map classifySegment (segmentStrings p))"
    and r: "r = map the (map classifySegment (segmentStrings p))"
    by (auto simp: extractSegments_def Let_def split: if_splits)
  from n have "None \<notin> set (map classifySegment (segmentStrings p))"
    unfolding list_ex_iff by auto
  from map_Some_the [OF this] r show ?thesis by simp
qed

lemma extractSegments_pointwise:
  assumes "extractSegments p = Some r"
  shows "length r = length (segmentStrings p)"
    and "i < length r \<Longrightarrow> classifySegment (segmentStrings p ! i) = Some (r ! i)"
proof -
  from extractSegments_classified [OF assms]
  have m: "map Some r = map classifySegment (segmentStrings p)" .
  from m have "length (map Some r) = length (map classifySegment (segmentStrings p))" by simp
  then show l: "length r = length (segmentStrings p)" by simp
  assume i: "i < length r"
  from m have "map Some r ! i = map classifySegment (segmentStrings p) ! i" by simp
  with i l show "classifySegment (segmentStrings p ! i) = Some (r ! i)" by simp
qed

text \<open>A string with a single separator splits around it in one way only.\<close>

lemma dot_split_unique:
  assumes "a @ [c] @ b = a' @ [c] @ b'" and "c \<notin> set a'" and "c \<notin> set b'"
  shows "a = a' \<and> b = b'"
proof -
  have "length (filter (\<lambda>x. x = c) (a @ [c] @ b)) = length (filter (\<lambda>x. x = c) (a' @ [c] @ b'))"
    using assms(1) by simp
  moreover have "filter (\<lambda>x. x = c) a' = []" "filter (\<lambda>x. x = c) b' = []"
    using assms(2,3) by (auto simp: filter_empty_conv)
  ultimately have "filter (\<lambda>x. x = c) a = []" "filter (\<lambda>x. x = c) b = []" by auto
  then have "c \<notin> set a" "c \<notin> set b" by (auto simp: filter_empty_conv)
  with assms show ?thesis by (simp add: append_Cons_eq_iff)
qed

lemma extensionText_cases:
  "(ext = extensionText e) \<longleftrightarrow>
     (ext = ''ts'' \<and> e = ts) \<or> (ext = ''tsx'' \<and> e = tsx)
     \<or> (ext = ''js'' \<and> e = js) \<or> (ext = ''jsx'' \<and> e = jsx)"
  by (cases e) auto

lemma extensionText_dotfree: "CHR ''.'' \<notin> set (extensionText e)"
  by (cases e) auto

lemma classify_plus_decomposed:
  assumes plus: "startsWith s ''+''" and c: "classifySegment s = Some seg"
      and s: "s = name @ ''.'' @ ext"
  shows "\<exists>e. ext = extensionText e
            \<and> ((name = ''+server'' \<and> seg = ServerHandle e) \<or> (name = ''+page'' \<and> seg = PageHandle e))"
proof -
  from classify_plus [OF plus c] obtain e where
    e: "(s = ''+server.'' @ extensionText e \<and> seg = ServerHandle e)
        \<or> (s = ''+page.'' @ extensionText e \<and> seg = PageHandle e)" by blast
  from e show ?thesis
  proof
    assume h: "s = ''+server.'' @ extensionText e \<and> seg = ServerHandle e"
    then have "name @ [CHR ''.''] @ ext = ''+server'' @ [CHR ''.''] @ extensionText e"
      using s by simp
    from dot_split_unique [OF this _ extensionText_dotfree]
    have "name = ''+server'' \<and> ext = extensionText e" by simp
    with h show ?thesis by blast
  next
    assume h: "s = ''+page.'' @ extensionText e \<and> seg = PageHandle e"
    then have "name @ [CHR ''.''] @ ext = ''+page'' @ [CHR ''.''] @ extensionText e"
      using s by simp
    from dot_split_unique [OF this _ extensionText_dotfree]
    have "name = ''+page'' \<and> ext = extensionText e" by simp
    with h show ?thesis by blast
  qed
qed

section \<open>Route extraction\<close>

text \<open>
  C2. The claim: when the segment parser rejects a path, \<open>extractRoute\<close> returns the
  "not a route" absence and never fails otherwise. The code does not: on the path of the
  repository's own test, \<open>/api/+invalid\<close>, the parser rejects and \<open>extractRoute\<close> throws
  a \<open>TypeError\<close> instead of returning the absence \<open>Inr None\<close>. In the builder, a
  listing with a file that is not a route file (here \<open>README.md\<close>) therefore ends the
  build with that defect instead of skipping the file.
\<close>

theorem extractRoute_rejected_parse_throws:
  "extractSegments ''/api/+invalid'' = None
   \<and> extractRoute ''/api/+invalid'' = Inl TypeError
   \<and> extractRoute ''/api/+invalid'' \<noteq> Inr None
   \<and> fromFiles (exampleEnv [''README.md'', ''+page.tsx'']
                  [(''/routes/+page.tsx'', Inr [(''default'', JsString ''Hello Root'')])])
               ''/routes''
       = Inl (Defect TypeError)"
  by code_simp

text \<open>
  C5, as stated: every non-absent result of \<open>extractRoute\<close> is a Route, with no handle
  segment before the last position. This fails for a path with a handle-named directory:
  the result below has a \<open>ServerHandle\<close> in first position.
\<close>

theorem extractRoute_nonterminal_handle:
  "extractRoute ''+server.ts/+page.ts'' = Inr (Some [ServerHandle ts, PageHandle ts])
   \<and> \<not> isRoute [ServerHandle ts, PageHandle ts]"
  by code_simp

text \<open>
  C5, amended: every non-absent result of \<open>extractRoute\<close> is the segment sequence the parser
  produced for the path, one segment per path component; it is non-empty and its last
  element is a handle segment. An element is a handle segment exactly when its component
  begins with \<open>+\<close>. So for every path none of whose components before the last begins with
  \<open>+\<close>, the result is a Route: zero or more path segments followed by exactly one handle
  segment, with no handle segment in a non-terminal position.
\<close>

theorem extractRoute_result_shape:
  assumes "extractRoute p = Inr (Some r)"
  shows "extractSegments p = Some r \<and> r \<noteq> [] \<and> isHandleSegment (last r)
       \<and> length r = length (segmentStrings p)
       \<and> (\<forall>i < length r. isHandleSegment (r ! i) \<longleftrightarrow> startsWith (segmentStrings p ! i) ''+'')
       \<and> ((\<forall>s \<in> set (butlast (segmentStrings p)). \<not> startsWith s ''+'') \<longrightarrow> isRoute r)"
proof -
  from assms have es: "extractSegments p = Some r" and ne: "r \<noteq> []"
    and lst: "isHandleSegment (last r)"
    by (auto simp: extractRoute_def split: option.splits if_splits)
  note len = extractSegments_pointwise(1) [OF es]
  have pt: "\<forall>i < length r. isHandleSegment (r ! i) \<longleftrightarrow> startsWith (segmentStrings p ! i) ''+''"
    using extractSegments_pointwise(2) [OF es] classify_handle_iff by blast
  have rt: "(\<forall>s \<in> set (butlast (segmentStrings p)). \<not> startsWith s ''+'') \<longrightarrow> isRoute r"
  proof
    assume a: "\<forall>s \<in> set (butlast (segmentStrings p)). \<not> startsWith s ''+''"
    have "list_all isPathSegment (butlast r)"
      unfolding list_all_length
    proof (intro allI impI)
      fix i assume i: "i < length (butlast r)"
      then have ir: "i < length r" by simp
      from i len have ib: "i < length (butlast (segmentStrings p))" by simp
      then have "butlast (segmentStrings p) ! i \<in> set (butlast (segmentStrings p))"
        by (rule nth_mem)
      with a have "\<not> startsWith (butlast (segmentStrings p) ! i) ''+''" by blast
      then have "\<not> startsWith (segmentStrings p ! i) ''+''" using ib by (simp add: nth_butlast)
      with pt ir have "\<not> isHandleSegment (r ! i)" by blast
      then show "isPathSegment (butlast r ! i)" using i by (simp add: nth_butlast isPathSegment_def)
    qed
    with ne lst show "isRoute r" by (simp add: isRoute_def)
  qed
  from es ne lst len pt rt show ?thesis by blast
qed

theorem extractRoute_result_shape_witness:
  "extractRoute ''/api/data/+server.ts'' = Inr (Some [Literal ''api'', Literal ''data'', ServerHandle ts])
   \<and> extractSegments ''/api/data/+server.ts'' = Some [Literal ''api'', Literal ''data'', ServerHandle ts]
   \<and> isHandleSegment (last [Literal ''api'', Literal ''data'', ServerHandle ts])
   \<and> isRoute [Literal ''api'', Literal ''data'', ServerHandle ts]"
proof -
  have h: "extractRoute ''/api/data/+server.ts''
             = Inr (Some [Literal ''api'', Literal ''data'', ServerHandle ts])"
    by code_simp
  have a: "\<forall>s \<in> set (butlast (segmentStrings ''/api/data/+server.ts'')). \<not> startsWith s ''+''"
    by code_simp
  note T = extractRoute_result_shape [OF h]
  have 1: "extractSegments ''/api/data/+server.ts''
             = Some [Literal ''api'', Literal ''data'', ServerHandle ts]"
    using T by (rule conjunct1)
  have 2: "isHandleSegment (last [Literal ''api'', Literal ''data'', ServerHandle ts])"
    using T [THEN conjunct2, THEN conjunct2] by (rule conjunct1)
  have 3: "isRoute [Literal ''api'', Literal ''data'', ServerHandle ts]"
    using T [THEN conjunct2, THEN conjunct2, THEN conjunct2, THEN conjunct2, THEN conjunct2,
             THEN mp, OF a] .
  from h 1 2 3 show ?thesis by (intro conjI)
qed

section \<open>Handle components and invalid bracket forms\<close>

text \<open>
  C6. A component that begins with \<open>+\<close> parses to a segment exactly when it is a name and an
  extension separated by its only dot, the extension is one of the texts ts, tsx, js, jsx,
  and the name is \<open>+server\<close> (giving a ServerHandle) or \<open>+page\<close> (giving a PageHandle), with
  the extension of that text. Any other number of dots is rejected; a component written as
  a name, a dot and an extension is rejected when the extension is none of the four texts
  or the name is neither \<open>+server\<close> nor \<open>+page\<close>; and a rejected component rejects every
  path it occurs in.
\<close>

theorem plus_component_handle:
  assumes "startsWith s ''+''"
  shows "(classifySegment s = Some seg \<longleftrightarrow>
            (\<exists>name ext e. s = name @ ''.'' @ ext \<and> dotCount s = 1
               \<and> ((ext = ''ts'' \<and> e = ts) \<or> (ext = ''tsx'' \<and> e = tsx)
                  \<or> (ext = ''js'' \<and> e = js) \<or> (ext = ''jsx'' \<and> e = jsx))
               \<and> ((name = ''+server'' \<and> seg = ServerHandle e)
                  \<or> (name = ''+page'' \<and> seg = PageHandle e))))
       \<and> (dotCount s \<noteq> 1 \<longrightarrow> classifySegment s = None)
       \<and> (s = name' @ ''.'' @ ext'
            \<and> (ext' \<notin> {''ts'', ''tsx'', ''js'', ''jsx''}
                \<or> (name' \<noteq> ''+server'' \<and> name' \<noteq> ''+page''))
          \<longrightarrow> classifySegment s = None)
       \<and> (classifySegment s = None \<and> s \<in> set (segmentStrings p) \<longrightarrow> extractSegments p = None)"
    (is "?iff \<and> ?dots \<and> ?other \<and> ?whole")
proof (intro conjI)
  show ?iff
  proof
    assume c: "classifySegment s = Some seg"
    from classify_plus [OF assms c] obtain e where
      e: "(s = ''+server.'' @ extensionText e \<and> seg = ServerHandle e)
          \<or> (s = ''+page.'' @ extensionText e \<and> seg = PageHandle e)" by blast
    have one: "dotCount s = 1"
      using classify_plus_dots [OF assms] c by (cases "dotCount s = 1") auto
    have ext: "(extensionText e = ''ts'' \<and> e = ts) \<or> (extensionText e = ''tsx'' \<and> e = tsx)
              \<or> (extensionText e = ''js'' \<and> e = js) \<or> (extensionText e = ''jsx'' \<and> e = jsx)"
      using extensionText_cases [of "extensionText e" e] by simp
    from e show "\<exists>name ext e. s = name @ ''.'' @ ext \<and> dotCount s = 1
               \<and> ((ext = ''ts'' \<and> e = ts) \<or> (ext = ''tsx'' \<and> e = tsx)
                  \<or> (ext = ''js'' \<and> e = js) \<or> (ext = ''jsx'' \<and> e = jsx))
               \<and> ((name = ''+server'' \<and> seg = ServerHandle e)
                  \<or> (name = ''+page'' \<and> seg = PageHandle e))"
    proof
      assume h: "s = ''+server.'' @ extensionText e \<and> seg = ServerHandle e"
      then have "s = ''+server'' @ ''.'' @ extensionText e" by simp
      with one ext h show ?thesis by blast
    next
      assume h: "s = ''+page.'' @ extensionText e \<and> seg = PageHandle e"
      then have "s = ''+page'' @ ''.'' @ extensionText e" by simp
      with one ext h show ?thesis by blast
    qed
  next
    assume "\<exists>name ext e. s = name @ ''.'' @ ext \<and> dotCount s = 1
               \<and> ((ext = ''ts'' \<and> e = ts) \<or> (ext = ''tsx'' \<and> e = tsx)
                  \<or> (ext = ''js'' \<and> e = js) \<or> (ext = ''jsx'' \<and> e = jsx))
               \<and> ((name = ''+server'' \<and> seg = ServerHandle e)
                  \<or> (name = ''+page'' \<and> seg = PageHandle e))"
    then obtain name ext e where
      s: "s = name @ ''.'' @ ext" and
      ext: "(ext = ''ts'' \<and> e = ts) \<or> (ext = ''tsx'' \<and> e = tsx)
            \<or> (ext = ''js'' \<and> e = js) \<or> (ext = ''jsx'' \<and> e = jsx)" and
      nm: "(name = ''+server'' \<and> seg = ServerHandle e) \<or> (name = ''+page'' \<and> seg = PageHandle e)"
      by blast
    have ext': "ext = extensionText e" using ext by (simp add: extensionText_cases)
    from nm show "classifySegment s = Some seg"
    proof
      assume "name = ''+server'' \<and> seg = ServerHandle e"
      then show ?thesis using s ext' classify_server [of e] by simp
    next
      assume "name = ''+page'' \<and> seg = PageHandle e"
      then show ?thesis using s ext' classify_page [of e] by simp
    qed
  qed
  show ?dots using classify_plus_dots [OF assms] by simp
  show ?other
  proof
    assume h: "s = name' @ ''.'' @ ext'
            \<and> (ext' \<notin> {''ts'', ''tsx'', ''js'', ''jsx''}
                \<or> (name' \<noteq> ''+server'' \<and> name' \<noteq> ''+page''))"
    show "classifySegment s = None"
    proof (cases "classifySegment s")
      case None
      then show ?thesis .
    next
      case (Some seg')
      from h have s: "s = name' @ ''.'' @ ext'" by simp
      from classify_plus_decomposed [OF assms Some s] obtain e where
        "ext' = extensionText e" and
        "(name' = ''+server'' \<and> seg' = ServerHandle e) \<or> (name' = ''+page'' \<and> seg' = PageHandle e)"
        by blast
      moreover have "extensionText e \<in> {''ts'', ''tsx'', ''js'', ''jsx''}" by (cases e) auto
      ultimately have False using h by auto
      then show ?thesis ..
    qed
  qed
  show ?whole using rejected_component by blast
qed

theorem plus_component_handle_witness:
  "startsWith ''+server.ts'' ''+''
   \<and> classifySegment ''+server.ts'' = Some (ServerHandle ts)
   \<and> startsWith ''+server.exe'' ''+''
   \<and> classifySegment ''+server.exe'' = None
   \<and> startsWith ''+page.foo.bar'' ''+''
   \<and> classifySegment ''+page.foo.bar'' = None
   \<and> extractSegments ''/api/+page.foo.bar'' = None"
proof -
  have a: "startsWith ''+server.ts'' ''+''" by (simp add: startsWith_def)
  have b: "startsWith ''+page.foo.bar'' ''+''" by (simp add: startsWith_def)
  have c: "startsWith ''+server.exe'' ''+''" by (simp add: startsWith_def)
  have ex: "\<exists>name ext e. ''+server.ts'' = name @ ''.'' @ ext \<and> dotCount ''+server.ts'' = 1
               \<and> ((ext = ''ts'' \<and> e = ts) \<or> (ext = ''tsx'' \<and> e = tsx)
                  \<or> (ext = ''js'' \<and> e = js) \<or> (ext = ''jsx'' \<and> e = jsx))
               \<and> ((name = ''+server'' \<and> ServerHandle ts = ServerHandle e)
                  \<or> (name = ''+page'' \<and> ServerHandle ts = PageHandle e))"
    by (rule exI [of _ "''+server''"], rule exI [of _ "''ts''"], rule exI [of _ ts])
       (simp add: dotCount_def)
  have 1: "classifySegment ''+server.ts'' = Some (ServerHandle ts)"
    using plus_component_handle [OF a, THEN conjunct1, THEN iffD2, OF ex] .
  have d: "dotCount ''+page.foo.bar'' \<noteq> 1" by (simp add: dotCount_def)
  have m: "''+page.foo.bar'' \<in> set (segmentStrings ''/api/+page.foo.bar'')"
    by (simp add: segmentStrings_def trimSlashes_def)
  have 2: "classifySegment ''+page.foo.bar'' = None"
    using plus_component_handle [OF b, THEN conjunct2, THEN conjunct1, THEN mp, OF d] .
  have 3: "extractSegments ''/api/+page.foo.bar'' = None"
    using plus_component_handle [OF b, THEN conjunct2, THEN conjunct2, THEN conjunct2, THEN mp,
            OF conjI [OF 2 m]] .
  have x: "''+server.exe'' = ''+server'' @ ''.'' @ ''exe''
           \<and> (''exe'' \<notin> {''ts'', ''tsx'', ''js'', ''jsx''}
               \<or> (''+server'' \<noteq> ''+server'' \<and> ''+server'' \<noteq> ''+page''))" by simp
  have 4: "classifySegment ''+server.exe'' = None"
    using plus_component_handle [OF c, THEN conjunct2, THEN conjunct2, THEN conjunct1, THEN mp,
            OF x] .
  from a 1 c 4 b 2 3 show ?thesis by (intro conjI)
qed

text \<open>
  C7. A component of the optional-rest form \<open>[[...x]]\<close>, for any \<open>x\<close>, is rejected, and so are
  the bracket forms with empty names \<open>[[]]\<close>, \<open>[...]\<close> and \<open>[]\<close>: none is classified as any
  segment, and every path that has one of them as a component is rejected as a whole.
\<close>

theorem optional_rest_and_empty_names_rejected:
  "classifySegment (''[[...'' @ x @ '']]'') = None
   \<and> classifySegment ''[[]]'' = None
   \<and> classifySegment ''[...]'' = None
   \<and> classifySegment ''[]'' = None
   \<and> (s \<in> {''[[...'' @ x @ '']]'', ''[[]]'', ''[...]'', ''[]''} \<and> s \<in> set (segmentStrings p)
        \<longrightarrow> extractSegments p = None)"
proof -
  note a = classify_optional_rest [of x]
  note b = classify_empty_names
  have c: "s \<in> {''[[...'' @ x @ '']]'', ''[[]]'', ''[...]'', ''[]''} \<and> s \<in> set (segmentStrings p)
             \<longrightarrow> extractSegments p = None"
  proof
    assume h: "s \<in> {''[[...'' @ x @ '']]'', ''[[]]'', ''[...]'', ''[]''} \<and> s \<in> set (segmentStrings p)"
    then have "classifySegment s = None" using a b by auto
    with h show "extractSegments p = None" using rejected_component by blast
  qed
  from a b c show ?thesis by blast
qed

theorem optional_rest_and_empty_names_rejected_witness:
  "''[[...invalid]]'' \<in> set (segmentStrings ''/files/[[...invalid]]/+page.ts'')
   \<and> classifySegment ''[[...invalid]]'' = None
   \<and> extractSegments ''/files/[[...invalid]]/+page.ts'' = None"
proof -
  have m: "''[[...invalid]]'' \<in> set (segmentStrings ''/files/[[...invalid]]/+page.ts'')"
    by (simp add: segmentStrings_def trimSlashes_def)
  from optional_rest_and_empty_names_rejected
         [of "''invalid''" "''[[...invalid]]''" "''/files/[[...invalid]]/+page.ts''"] m
  show ?thesis by simp
qed

section \<open>Dispatch patterns\<close>

lemma segmentsToPath_empty: "segmentsToPath [] = ''/''"
  by (simp add: segmentsToPath_def)

text \<open>The name of a rest parameter as the parser stores it is recovered by the substring.\<close>

lemma segmentComponent_rest:
  "segmentComponent (RestParam (''[...'' @ name @ '']'')) = Some ('':'' @ name @ ''*'')"
proof -
  have n: "nat (4 + int (length name)) = Suc (Suc (Suc (Suc (length name))))" by simp
  show ?thesis by (simp add: substring_def Let_def n)
qed

text \<open>A string without two slashes in a row is left as it is by the replacement.\<close>

lemma replaceDoubleSlash_id: "\<not> hasDoubleSlash s \<Longrightarrow> replaceDoubleSlash s = s"
  by (induction s rule: replaceDoubleSlash.induct) auto

text \<open>
  C8. The claim: the dispatch pattern joins the components with slashes behind a leading
  slash, and any resulting double slash is collapsed to a single slash. The replacement in
  \<open>segmentsToPath\<close> makes one pass over non-overlapping pairs, so three slashes in a row
  leave two: three empty literals give the pattern \<open>//\<close>. The same happens
  on a path the builder can meet, where three handle-named directories precede the
  handle file.
\<close>

theorem segmentsToPath_leaves_double_slash:
  "segmentsToPath [Literal '''', Literal '''', Literal ''''] = ''//''
   \<and> hasDoubleSlash (segmentsToPath [Literal '''', Literal '''', Literal ''''])
   \<and> extractRoute ''+page.ts/+page.ts/+page.ts/+server.ts''
       = Inr (Some [PageHandle ts, PageHandle ts, PageHandle ts, ServerHandle ts])
   \<and> segmentsToPath (butlast [PageHandle ts, PageHandle ts, PageHandle ts, ServerHandle ts]) = ''//''"
  by code_simp

section \<open>Facts about the builder\<close>

lemma fromFilesLoop_append:
  "fromFilesLoop env dir router (pre @ files) =
     (case fromFilesLoop env dir router pre of
        Inl failure \<Rightarrow> Inl failure
      | Inr router' \<Rightarrow> fromFilesLoop env dir router' files)"
  by (induction pre arbitrary: router) (auto split: sum.splits)

text \<open>
  The build at the file \<open>rel\<close> of the listing, reached with the router \<open>router\<close> after the
  files before it: a failure of that file is the result of the build, otherwise the
  build goes on with the files after it.
\<close>

lemma fromFiles_at:
  assumes "readDirectory env (resolve env scanDir) = Inr (pre @ rel # post)"
      and "fromFilesLoop env (resolve env scanDir) [] pre = Inr router"
  shows "fromFiles env scanDir =
     (case processFile env (resolve env scanDir) router rel of
        Inl failure \<Rightarrow> Inl failure
      | Inr router' \<Rightarrow> fromFilesLoop env (resolve env scanDir) router' post)"
  using assms by (simp add: fromFiles_def fromFilesLoop_append Let_def)

lemma registerMethods_eq:
  "registerMethods module httpPath ms (router, found) =
     (router @ map (\<lambda>m. MethodRoute m httpPath (Exported (moduleGet module (methodName m))))
                 (filter (\<lambda>m. isHandlerValue (moduleGet module (methodName m))) ms),
      found \<or> filter (\<lambda>m. isHandlerValue (moduleGet module (methodName m))) ms \<noteq> [])"
  by (induction ms arbitrary: router found) (simp_all add: Let_def)

lemma serverHandle_eq:
  "serverHandle module httpPath file router =
     (if validMethods module \<noteq> [] then Inr (router @ methodRoutes module httpPath)
      else if isHandlerValue (moduleGet module ''default'')
      then Inr (router @ [AllRoute httpPath (Exported (moduleGet module ''default''))])
      else Inl (InvalidModuleError
             (''No valid route handlers (method-specific functions or default export) found in ''
              @ file)))"
  by (simp add: serverHandle_def registerMethods_eq validMethods_def methodRoutes_def Let_def)

lemma processFile_route:
  assumes "extractRoute rel = Inr (Some segs)"
  shows "processFile env dir router rel =
     (case importModule env (joinPath env dir rel) of
        Inl cause \<Rightarrow> Inl (ImportError cause (joinPath env dir rel))
      | Inr module \<Rightarrow>
          validateModule env (last segs) (segmentsToPath (butlast segs)) (joinPath env dir rel)
            module router)"
proof -
  have "segs \<noteq> []"
    using assms by (auto simp: extractRoute_def split: option.splits if_splits)
  then show ?thesis using assms by (simp add: processFile_def Let_def)
qed

lemma validateModule_server:
  "validateModule env (ServerHandle ext) httpPath file module router
     = serverHandle module httpPath file router"
  by (simp add: validateModule_def Let_def)

lemma validateModule_page:
  "validateModule env (PageHandle ext) httpPath file module router =
     (if \<not> truthy (moduleGet module ''default'')
      then Inl (InvalidModuleError (''Missing default export in '' @ file @ '' for +page.tsx''))
      else pageHandle env module httpPath file router)"
  by (simp add: validateModule_def Let_def)

text \<open>The truthiness guards of the handler test exclude no callable or pipe-bearing value.\<close>

lemma isHandlerValue_iff:
  "isHandlerValue v \<longleftrightarrow>
     typeofJs v = ''function'' \<or> typeofJs (getProperty v ''pipe'') = ''function''"
  by (cases v) (auto simp: isHandlerValue_def)

lemma all_methods: "m \<in> set httpMethods"
  by (cases m) (simp_all add: httpMethods_def)

lemma methodRoutes_member:
  "isHandlerValue (moduleGet module (methodName m)) \<Longrightarrow>
     MethodRoute m httpPath (Exported (moduleGet module (methodName m)))
       \<in> set (methodRoutes module httpPath)"
  using all_methods [of m] by (auto simp: methodRoutes_def validMethods_def)

lemma methodRoutes_only:
  "r \<in> set (methodRoutes module httpPath) \<Longrightarrow>
     \<exists>m. isHandlerValue (moduleGet module (methodName m))
        \<and> r = MethodRoute m httpPath (Exported (moduleGet module (methodName m)))"
  by (auto simp: methodRoutes_def validMethods_def)

lemma methodRoutes_no_route:
  assumes "\<not> isHandlerValue (moduleGet module (methodName m))"
  shows "\<not> hasRoute (methodRoutes module httpPath) m p"
proof
  assume "hasRoute (methodRoutes module httpPath) m p"
  then obtain r where r: "r \<in> set (methodRoutes module httpPath)" and a: "answers m p r"
    by (auto simp: hasRoute_def list_ex_iff)
  from methodRoutes_only [OF r] obtain m' where
    v: "isHandlerValue (moduleGet module (methodName m'))" and
    e: "r = MethodRoute m' httpPath (Exported (moduleGet module (methodName m')))" by blast
  from a e have "m' = m" by simp
  with v assms show False by simp
qed

section \<open>Server modules\<close>

text \<open>
  C1. For a server-handle file that the build reaches and whose module loads: a method
  export is a valid handler exactly when it is callable or bears a callable pipe; every
  valid method export is registered as a method route on the route's pattern; when there
  is at least one, only those method routes are added and the default export plays no
  part; when there is none and the default export is a valid handler, it is added as the
  catch-all route; when there is neither, the build fails with an InvalidModuleError
  whose message says that no valid route handlers were found in the file, named by its
  path.
\<close>

theorem server_module_registration:
  assumes listing: "readDirectory env (resolve env scanDir) = Inr (pre @ rel # post)"
      and before: "fromFilesLoop env (resolve env scanDir) [] pre = Inr router"
      and route: "extractRoute rel = Inr (Some segs)"
      and server: "last segs = ServerHandle ext"
      and loaded: "importModule env (joinPath env (resolve env scanDir) rel) = Inr module"
  shows "(fromFiles env scanDir =
           (if validMethods module \<noteq> []
            then fromFilesLoop env (resolve env scanDir)
                   (router @ methodRoutes module (segmentsToPath (butlast segs))) post
            else if isHandlerValue (moduleGet module ''default'')
            then fromFilesLoop env (resolve env scanDir)
                   (router @ [AllRoute (segmentsToPath (butlast segs))
                                       (Exported (moduleGet module ''default''))]) post
            else Inl (InvalidModuleError
                   (''No valid route handlers (method-specific functions or default export) found in ''
                    @ joinPath env (resolve env scanDir) rel))))
       \<and> (isHandlerValue (moduleGet module (methodName m)) \<longleftrightarrow>
             typeofJs (moduleGet module (methodName m)) = ''function''
             \<or> typeofJs (getProperty (moduleGet module (methodName m)) ''pipe'') = ''function'')
       \<and> (isHandlerValue (moduleGet module (methodName m)) \<longrightarrow>
             validMethods module \<noteq> []
             \<and> MethodRoute m (segmentsToPath (butlast segs))
                   (Exported (moduleGet module (methodName m)))
                 \<in> set (methodRoutes module (segmentsToPath (butlast segs))))
       \<and> (\<forall>r \<in> set (methodRoutes module (segmentsToPath (butlast segs))).
             \<exists>m'. r = MethodRoute m' (segmentsToPath (butlast segs))
                         (Exported (moduleGet module (methodName m'))))"
    (is "?build \<and> ?valid \<and> ?registered \<and> ?only")
proof (intro conjI)
  show ?build
    using fromFiles_at [OF listing before]
          processFile_route [OF route, of env "resolve env scanDir" router]
    by (simp add: loaded server validateModule_server serverHandle_eq)
  show ?valid by (rule isHandlerValue_iff)
  show ?registered
  proof
    assume v: "isHandlerValue (moduleGet module (methodName m))"
    have "m \<in> set (validMethods module)"
      using v all_methods [of m] by (simp add: validMethods_def)
    then have "validMethods module \<noteq> []" by auto
    with methodRoutes_member [OF v]
    show "validMethods module \<noteq> []
           \<and> MethodRoute m (segmentsToPath (butlast segs))
                 (Exported (moduleGet module (methodName m)))
               \<in> set (methodRoutes module (segmentsToPath (butlast segs)))" by blast
  qed
  show ?only using methodRoutes_only by blast
qed

theorem server_module_registration_witness:
  "fromFiles (exampleEnv [''api'', ''api/methods'', ''api/methods/+server.ts'']
                [(''/routes/api/methods/+server.ts'',
                  Inr [(''GET'', effectValue ''GET request''),
                       (''POST'', effectValue ''POST request''),
                       (''default'', effectValue ''Default fallback'')])])
             ''/routes''
     = Inr [MethodRoute GET ''/api/methods'' (Exported (effectValue ''GET request'')),
            MethodRoute POST ''/api/methods'' (Exported (effectValue ''POST request''))]
   \<and> fromFiles (exampleEnv [''api'', ''api/defaultonly'', ''api/defaultonly/+server.ts'']
                [(''/routes/api/defaultonly/+server.ts'',
                  Inr [(''default'', effectValue ''Default handler'')])])
             ''/routes''
     = Inr [AllRoute ''/api/defaultonly'' (Exported (effectValue ''Default handler''))]
   \<and> fromFiles (exampleEnv [''api'', ''api/nohandlers'', ''api/nohandlers/+server.ts'']
                [(''/routes/api/nohandlers/+server.ts'', Inr [(''value'', JsNumber 123)])])
             ''/routes''
     = Inl (InvalidModuleError
         ''No valid route handlers (method-specific functions or default export) found in /routes/api/nohandlers/+server.ts'')
   \<and> isHandlerValue (moduleGet [(''GET'', effectValue ''GET request''),
                                 (''POST'', effectValue ''POST request''),
                                 (''default'', effectValue ''Default fallback'')] (methodName GET))
   \<and> MethodRoute GET (segmentsToPath (butlast [Literal ''api'', Literal ''methods'', ServerHandle ts]))
         (Exported (moduleGet [(''GET'', effectValue ''GET request''),
                               (''POST'', effectValue ''POST request''),
                               (''default'', effectValue ''Default fallback'')] (methodName GET)))
       \<in> set (methodRoutes [(''GET'', effectValue ''GET request''),
                              (''POST'', effectValue ''POST request''),
                              (''default'', effectValue ''Default fallback'')]
                 (segmentsToPath (butlast [Literal ''api'', Literal ''methods'', ServerHandle ts])))"
proof -
  let ?m1 = "[(''GET'', effectValue ''GET request''), (''POST'', effectValue ''POST request''),
              (''default'', effectValue ''Default fallback'')]"
  let ?e1 = "exampleEnv [''api'', ''api/methods'', ''api/methods/+server.ts''] [(''/routes/api/methods/+server.ts'', Inr ?m1)]"
  let ?m2 = "[(''default'', effectValue ''Default handler'')]"
  let ?e2 = "exampleEnv [''api'', ''api/defaultonly'', ''api/defaultonly/+server.ts''] [(''/routes/api/defaultonly/+server.ts'', Inr ?m2)]"
  let ?m3 = "[(''value'', JsNumber 123)]"
  let ?e3 = "exampleEnv [''api'', ''api/nohandlers'', ''api/nohandlers/+server.ts''] [(''/routes/api/nohandlers/+server.ts'', Inr ?m3)]"
  have l1: "readDirectory ?e1 (resolve ?e1 ''/routes'')
              = Inr ([''api'', ''api/methods''] @ ''api/methods/+server.ts'' # [])"
    by (simp add: exampleEnv_def)
  have b1: "fromFilesLoop ?e1 (resolve ?e1 ''/routes'') [] [''api'', ''api/methods''] = Inr []"
    by code_simp
  have r1: "extractRoute ''api/methods/+server.ts''
              = Inr (Some [Literal ''api'', Literal ''methods'', ServerHandle ts])"
    by code_simp
  have s1: "last [Literal ''api'', Literal ''methods'', ServerHandle ts] = ServerHandle ts" by simp
  have i1: "importModule ?e1 (joinPath ?e1 (resolve ?e1 ''/routes'') ''api/methods/+server.ts'') = Inr ?m1"
    by code_simp
  have v1: "(if validMethods ?m1 \<noteq> []
      then fromFilesLoop ?e1 (resolve ?e1 ''/routes'')
             ([] @ methodRoutes ?m1 (segmentsToPath (butlast [Literal ''api'', Literal ''methods'', ServerHandle ts]))) []
      else if isHandlerValue (moduleGet ?m1 ''default'')
      then fromFilesLoop ?e1 (resolve ?e1 ''/routes'')
             ([] @ [AllRoute (segmentsToPath (butlast [Literal ''api'', Literal ''methods'', ServerHandle ts]))
                                 (Exported (moduleGet ?m1 ''default''))]) []
      else Inl (InvalidModuleError
             (''No valid route handlers (method-specific functions or default export) found in ''
              @ joinPath ?e1 (resolve ?e1 ''/routes'') ''api/methods/+server.ts'')))
     = Inr [MethodRoute GET ''/api/methods'' (Exported (effectValue ''GET request'')),
            MethodRoute POST ''/api/methods'' (Exported (effectValue ''POST request''))]"
    by code_simp
  have c1: "fromFiles ?e1 ''/routes''
     = Inr [MethodRoute GET ''/api/methods'' (Exported (effectValue ''GET request'')),
            MethodRoute POST ''/api/methods'' (Exported (effectValue ''POST request''))]"
    using server_module_registration [OF l1 b1 r1 s1 i1, THEN conjunct1] v1 by (rule trans)
  have l2: "readDirectory ?e2 (resolve ?e2 ''/routes'')
              = Inr ([''api'', ''api/defaultonly''] @ ''api/defaultonly/+server.ts'' # [])"
    by (simp add: exampleEnv_def)
  have b2: "fromFilesLoop ?e2 (resolve ?e2 ''/routes'') [] [''api'', ''api/defaultonly''] = Inr []"
    by code_simp
  have r2: "extractRoute ''api/defaultonly/+server.ts''
              = Inr (Some [Literal ''api'', Literal ''defaultonly'', ServerHandle ts])"
    by code_simp
  have s2: "last [Literal ''api'', Literal ''defaultonly'', ServerHandle ts] = ServerHandle ts" by simp
  have i2: "importModule ?e2 (joinPath ?e2 (resolve ?e2 ''/routes'') ''api/defaultonly/+server.ts'') = Inr ?m2"
    by code_simp
  have v2: "(if validMethods ?m2 \<noteq> []
      then fromFilesLoop ?e2 (resolve ?e2 ''/routes'')
             ([] @ methodRoutes ?m2 (segmentsToPath (butlast [Literal ''api'', Literal ''defaultonly'', ServerHandle ts]))) []
      else if isHandlerValue (moduleGet ?m2 ''default'')
      then fromFilesLoop ?e2 (resolve ?e2 ''/routes'')
             ([] @ [AllRoute (segmentsToPath (butlast [Literal ''api'', Literal ''defaultonly'', ServerHandle ts]))
                                 (Exported (moduleGet ?m2 ''default''))]) []
      else Inl (InvalidModuleError
             (''No valid route handlers (method-specific functions or default export) found in ''
              @ joinPath ?e2 (resolve ?e2 ''/routes'') ''api/defaultonly/+server.ts'')))
     = Inr [AllRoute ''/api/defaultonly'' (Exported (effectValue ''Default handler''))]"
    by code_simp
  have c2: "fromFiles ?e2 ''/routes''
     = Inr [AllRoute ''/api/defaultonly'' (Exported (effectValue ''Default handler''))]"
    using server_module_registration [OF l2 b2 r2 s2 i2, THEN conjunct1] v2 by (rule trans)
  have l3: "readDirectory ?e3 (resolve ?e3 ''/routes'')
              = Inr ([''api'', ''api/nohandlers''] @ ''api/nohandlers/+server.ts'' # [])"
    by (simp add: exampleEnv_def)
  have b3: "fromFilesLoop ?e3 (resolve ?e3 ''/routes'') [] [''api'', ''api/nohandlers''] = Inr []"
    by code_simp
  have r3: "extractRoute ''api/nohandlers/+server.ts''
              = Inr (Some [Literal ''api'', Literal ''nohandlers'', ServerHandle ts])"
    by code_simp
  have s3: "last [Literal ''api'', Literal ''nohandlers'', ServerHandle ts] = ServerHandle ts" by simp
  have i3: "importModule ?e3 (joinPath ?e3 (resolve ?e3 ''/routes'') ''api/nohandlers/+server.ts'') = Inr ?m3"
    by code_simp
  have v3: "(if validMethods ?m3 \<noteq> []
      then fromFilesLoop ?e3 (resolve ?e3 ''/routes'')
             ([] @ methodRoutes ?m3 (segmentsToPath (butlast [Literal ''api'', Literal ''nohandlers'', ServerHandle ts]))) []
      else if isHandlerValue (moduleGet ?m3 ''default'')
      then fromFilesLoop ?e3 (resolve ?e3 ''/routes'')
             ([] @ [AllRoute (segmentsToPath (butlast [Literal ''api'', Literal ''nohandlers'', ServerHandle ts]))
                                 (Exported (moduleGet ?m3 ''default''))]) []
      else Inl (InvalidModuleError
             (''No valid route handlers (method-specific functions or default export) found in ''
              @ joinPath ?e3 (resolve ?e3 ''/routes'') ''api/nohandlers/+server.ts'')))
     = Inl (InvalidModuleError
         ''No valid route handlers (method-specific functions or default export) found in /routes/api/nohandlers/+server.ts'')"
    by code_simp
  have c3: "fromFiles ?e3 ''/routes''
     = Inl (InvalidModuleError
         ''No valid route handlers (method-specific functions or default export) found in /routes/api/nohandlers/+server.ts'')"
    using server_module_registration [OF l3 b3 r3 s3 i3, THEN conjunct1] v3 by (rule trans)
  have h1: "isHandlerValue (moduleGet ?m1 (methodName GET))" by code_simp
  have g1: "MethodRoute GET (segmentsToPath (butlast [Literal ''api'', Literal ''methods'', ServerHandle ts]))
              (Exported (moduleGet ?m1 (methodName GET)))
            \<in> set (methodRoutes ?m1
                      (segmentsToPath (butlast [Literal ''api'', Literal ''methods'', ServerHandle ts])))"
    using server_module_registration [OF l1 b1 r1 s1 i1, of GET, THEN conjunct2, THEN conjunct2,
            THEN conjunct1, rule_format, OF h1]
    by (rule conjunct2)
  from c1 c2 c3 h1 g1 show ?thesis by (intro conjI)
qed

text \<open>
  C10, as stated: an invalid method export is ignored, and requests of that method then
  get no route. The second part fails when no method export is valid and the default
  export is: the default is registered as the catch-all route, which answers the ignored
  method as well. Below, the export \<open>GET\<close> is a string and requests of method GET on the
  pattern are answered by the default handler.
\<close>

theorem invalid_method_answered_by_default:
  "\<not> isHandlerValue (moduleGet [(''GET'', JsString ''not an effect''),
                                (''default'', effectValue ''Default fallback'')] (methodName GET))
   \<and> fromFiles (exampleEnv [''api'', ''api/badmethod'', ''api/badmethod/+server.ts'']
                  [(''/routes/api/badmethod/+server.ts'',
                    Inr [(''GET'', JsString ''not an effect''),
                         (''default'', effectValue ''Default fallback'')])])
               ''/routes''
       = Inr [AllRoute ''/api/badmethod'' (Exported (effectValue ''Default fallback''))]
   \<and> hasRoute [AllRoute ''/api/badmethod'' (Exported (effectValue ''Default fallback''))]
        GET ''/api/badmethod''"
  by code_simp

text \<open>
  C10, amended. For a server-handle file that the build reaches and whose module loads,
  a method export that is not a valid handler raises no error and gets no method route.
  If some method export of the module is valid, the file adds only the method routes of
  the valid exports: none of them answers the ignored method, and the router answers that
  method on any pattern exactly as it did before the file. If no method export is valid
  and the default export is a valid handler, the file adds the catch-all route, which
  answers the ignored method too.
\<close>

theorem invalid_method_export_ignored:
  assumes listing: "readDirectory env (resolve env scanDir) = Inr (pre @ rel # post)"
      and before: "fromFilesLoop env (resolve env scanDir) [] pre = Inr router"
      and route: "extractRoute rel = Inr (Some segs)"
      and server: "last segs = ServerHandle ext"
      and loaded: "importModule env (joinPath env (resolve env scanDir) rel) = Inr module"
      and invalid: "\<not> isHandlerValue (moduleGet module (methodName m))"
  shows "(validMethods module \<noteq> [] \<longrightarrow>
            fromFiles env scanDir =
              fromFilesLoop env (resolve env scanDir)
                (router @ methodRoutes module (segmentsToPath (butlast segs))) post
            \<and> \<not> hasRoute (methodRoutes module (segmentsToPath (butlast segs))) m p
            \<and> hasRoute (router @ methodRoutes module (segmentsToPath (butlast segs))) m p
                = hasRoute router m p)
       \<and> (validMethods module = [] \<and> isHandlerValue (moduleGet module ''default'') \<longrightarrow>
            fromFiles env scanDir =
              fromFilesLoop env (resolve env scanDir)
                (router @ [AllRoute (segmentsToPath (butlast segs))
                                    (Exported (moduleGet module ''default''))]) post
            \<and> hasRoute [AllRoute (segmentsToPath (butlast segs))
                                  (Exported (moduleGet module ''default''))]
                 m (segmentsToPath (butlast segs)))"
proof -
  have build: "fromFiles env scanDir =
     (case serverHandle module (segmentsToPath (butlast segs))
             (joinPath env (resolve env scanDir) rel) router of
        Inl failure \<Rightarrow> Inl failure
      | Inr router' \<Rightarrow> fromFilesLoop env (resolve env scanDir) router' post)"
    using fromFiles_at [OF listing before]
          processFile_route [OF route, of env "resolve env scanDir" router]
    by (simp add: loaded server validateModule_server)
  have none: "\<not> hasRoute (methodRoutes module (segmentsToPath (butlast segs))) m p"
    by (rule methodRoutes_no_route [OF invalid])
  have same: "hasRoute (router @ methodRoutes module (segmentsToPath (butlast segs))) m p
                = hasRoute router m p"
    using none by (simp add: hasRoute_def)
  have all: "hasRoute [AllRoute (segmentsToPath (butlast segs))
                                (Exported (moduleGet module ''default''))]
               m (segmentsToPath (butlast segs))"
    by (simp add: hasRoute_def)
  from build none same all show ?thesis by (simp add: serverHandle_eq)
qed

theorem invalid_method_export_ignored_witness:
  "\<not> isHandlerValue (moduleGet [(''GET'', JsString ''not an effect''),
                                (''POST'', effectValue ''POST request''),
                                (''default'', effectValue ''Default fallback'')] (methodName GET))
   \<and> fromFiles (exampleEnv [''api'', ''api/badmethod'', ''api/badmethod/+server.ts'']
                  [(''/routes/api/badmethod/+server.ts'',
                    Inr [(''GET'', JsString ''not an effect''),
                         (''POST'', effectValue ''POST request''),
                         (''default'', effectValue ''Default fallback'')])])
               ''/routes''
       = Inr [MethodRoute POST ''/api/badmethod'' (Exported (effectValue ''POST request''))]
   \<and> \<not> hasRoute [MethodRoute POST ''/api/badmethod'' (Exported (effectValue ''POST request''))]
          GET ''/api/badmethod''
   \<and> fromFiles (exampleEnv [''api'', ''api/fallback'', ''api/fallback/+server.js'']
                  [(''/routes/api/fallback/+server.js'',
                    Inr [(''PUT'', JsNumber 1),
                         (''default'', effectValue ''Default fallback'')])])
               ''/routes''
       = Inr [AllRoute ''/api/fallback'' (Exported (effectValue ''Default fallback''))]"
proof -
  let ?m2 = "[(''PUT'', JsNumber 1), (''default'', effectValue ''Default fallback'')]"
  let ?e2 = "exampleEnv [''api'', ''api/fallback'', ''api/fallback/+server.js'']
               [(''/routes/api/fallback/+server.js'', Inr ?m2)]"
  let ?segs2 = "[Literal ''api'', Literal ''fallback'', ServerHandle js]"
  have l2: "readDirectory ?e2 (resolve ?e2 ''/routes'')
              = Inr ([''api'', ''api/fallback''] @ ''api/fallback/+server.js'' # [])"
    by (simp add: exampleEnv_def)
  have b2: "fromFilesLoop ?e2 (resolve ?e2 ''/routes'') [] [''api'', ''api/fallback''] = Inr []"
    by code_simp
  have r2: "extractRoute ''api/fallback/+server.js'' = Inr (Some ?segs2)" by code_simp
  have s2: "last ?segs2 = ServerHandle js" by simp
  have i2: "importModule ?e2 (joinPath ?e2 (resolve ?e2 ''/routes'') ''api/fallback/+server.js'') = Inr ?m2"
    by code_simp
  have n2: "\<not> isHandlerValue (moduleGet ?m2 (methodName PUT))" by code_simp
  have v2: "validMethods ?m2 = [] \<and> isHandlerValue (moduleGet ?m2 ''default'')" by code_simp
  have routes2: "fromFilesLoop ?e2 (resolve ?e2 ''/routes'')
                   ([] @ [AllRoute (segmentsToPath (butlast ?segs2))
                                   (Exported (moduleGet ?m2 ''default''))]) []
                 = Inr [AllRoute ''/api/fallback'' (Exported (effectValue ''Default fallback''))]"
    by code_simp
  have c2: "fromFiles ?e2 ''/routes''
              = Inr [AllRoute ''/api/fallback'' (Exported (effectValue ''Default fallback''))]"
    using invalid_method_export_ignored [OF l2 b2 r2 s2 i2 n2, THEN conjunct2, rule_format,
            OF v2, THEN conjunct1] routes2
    by (rule trans)
  let ?m = "[(''GET'', JsString ''not an effect''), (''POST'', effectValue ''POST request''),
             (''default'', effectValue ''Default fallback'')]"
  let ?e = "exampleEnv [''api'', ''api/badmethod'', ''api/badmethod/+server.ts'']
              [(''/routes/api/badmethod/+server.ts'', Inr ?m)]"
  let ?segs = "[Literal ''api'', Literal ''badmethod'', ServerHandle ts]"
  have l: "readDirectory ?e (resolve ?e ''/routes'')
             = Inr ([''api'', ''api/badmethod''] @ ''api/badmethod/+server.ts'' # [])"
    by (simp add: exampleEnv_def)
  have b: "fromFilesLoop ?e (resolve ?e ''/routes'') [] [''api'', ''api/badmethod''] = Inr []"
    by code_simp
  have r: "extractRoute ''api/badmethod/+server.ts'' = Inr (Some ?segs)" by code_simp
  have s: "last ?segs = ServerHandle ts" by simp
  have i: "importModule ?e (joinPath ?e (resolve ?e ''/routes'') ''api/badmethod/+server.ts'') = Inr ?m"
    by code_simp
  have n: "\<not> isHandlerValue (moduleGet ?m (methodName GET))" by code_simp
  have v: "validMethods ?m \<noteq> []" by code_simp
  have routes: "fromFilesLoop ?e (resolve ?e ''/routes'')
                  ([] @ methodRoutes ?m (segmentsToPath (butlast ?segs))) []
                = Inr [MethodRoute POST ''/api/badmethod'' (Exported (effectValue ''POST request''))]"
    by code_simp
  have mr: "methodRoutes ?m (segmentsToPath (butlast ?segs))
              = [MethodRoute POST ''/api/badmethod'' (Exported (effectValue ''POST request''))]"
    by code_simp
  note T = invalid_method_export_ignored [OF l b r s i n, of "''/api/badmethod''",
             THEN conjunct1, rule_format, OF v]
  have c: "fromFiles ?e ''/routes''
             = Inr [MethodRoute POST ''/api/badmethod'' (Exported (effectValue ''POST request''))]"
    using T [THEN conjunct1] routes by (rule trans)
  have h: "\<not> hasRoute [MethodRoute POST ''/api/badmethod'' (Exported (effectValue ''POST request''))]
             GET ''/api/badmethod''"
    using T [THEN conjunct2, THEN conjunct1] unfolding mr .
  from n c h c2 show ?thesis by (intro conjI)
qed

section \<open>Page modules\<close>

text \<open>
  What a page-handle file with a string as its default export does: a non-empty string is
  registered as the text of a GET route; the empty string is reported as a missing default
  export.
\<close>

lemma page_string_default:
  assumes listing: "readDirectory env (resolve env scanDir) = Inr (pre @ rel # post)"
      and before: "fromFilesLoop env (resolve env scanDir) [] pre = Inr router"
      and route: "extractRoute rel = Inr (Some segs)"
      and page: "last segs = PageHandle ext"
      and loaded: "importModule env (joinPath env (resolve env scanDir) rel) = Inr module"
      and str: "moduleGet module ''default'' = JsString text"
  shows "fromFiles env scanDir =
     (if text = []
      then Inl (InvalidModuleError
             (''Missing default export in '' @ joinPath env (resolve env scanDir) rel
              @ '' for +page.tsx''))
      else fromFilesLoop env (resolve env scanDir)
             (router @ [MethodRoute GET (segmentsToPath (butlast segs)) (SucceedText text)]) post)"
  using fromFiles_at [OF listing before]
        processFile_route [OF route, of env "resolve env scanDir" router]
  by (simp add: loaded page validateModule_page str pageHandle_def)

text \<open>
  C3. The claim: for every string \<open>s\<close>, the empty string included, a page module whose
  default export is \<open>s\<close> builds and registers a GET route answering with \<open>s\<close>, and the
  error for a missing default export is raised only when the default export is absent.
  The code does so for a non-empty string; for the empty string, which is a present
  default export, the build fails with "Missing default export".
\<close>

theorem page_empty_string_reported_missing:
  "fromFiles (exampleEnv [''+page.tsx''] [(''/routes/+page.tsx'', Inr [(''default'', JsString '''')])])
             ''/routes''
     = Inl (InvalidModuleError ''Missing default export in /routes/+page.tsx for +page.tsx'')
   \<and> fromFiles (exampleEnv [''+page.tsx'']
                  [(''/routes/+page.tsx'', Inr [(''default'', JsString ''Hello Root'')])])
               ''/routes''
     = Inr [MethodRoute GET ''/'' (SucceedText ''Hello Root'')]"
  by code_simp

text \<open>
  C4. For a page-handle file that the build reaches and whose module loads with a callable
  default export, the export is called without arguments. If the call throws, the build
  fails with an InvalidModuleError whose message reports the error of the execution and
  names the file; if the call returns a value that is not a string, the build fails with
  an InvalidModuleError whose message says that the function did not return a string and
  names the file.
\<close>

theorem page_function_failures:
  assumes listing: "readDirectory env (resolve env scanDir) = Inr (pre @ rel # post)"
      and before: "fromFilesLoop env (resolve env scanDir) [] pre = Inr router"
      and route: "extractRoute rel = Inr (Some segs)"
      and page: "last segs = PageHandle ext"
      and loaded: "importModule env (joinPath env (resolve env scanDir) rel) = Inr module"
      and callable: "typeofJs (moduleGet module ''default'') = ''function''"
  shows "(call (moduleGet module ''default'') = Throws err \<longrightarrow>
            fromFiles env scanDir = Inl (InvalidModuleError
               (''Error executing default export function in ''
                @ joinPath env (resolve env scanDir) rel
                @ '' for +page.tsx: '' @ errorText env err)))
       \<and> (call (moduleGet module ''default'') = Returns v \<and> typeofJs v \<noteq> ''string'' \<longrightarrow>
            fromFiles env scanDir = Inl (InvalidModuleError
               (''Default export function in '' @ joinPath env (resolve env scanDir) rel
                @ '' for +page.tsx did not return a string.'')))"
    (is "?throws \<and> ?returns")
proof -
  have t: "truthy (moduleGet module ''default'')"
    using callable by (cases "moduleGet module ''default''") auto
  have pf: "fromFiles env scanDir =
     (case pageHandle env module (segmentsToPath (butlast segs))
             (joinPath env (resolve env scanDir) rel) router of
        Inl failure \<Rightarrow> Inl failure
      | Inr router' \<Rightarrow> fromFilesLoop env (resolve env scanDir) router' post)"
    using fromFiles_at [OF listing before]
          processFile_route [OF route, of env "resolve env scanDir" router]
    by (simp add: loaded page validateModule_page t)
  have 1: ?throws
    using pf callable by (simp add: pageHandle_def Let_def)
  have 2: ?returns
  proof
    assume a: "call (moduleGet module ''default'') = Returns v \<and> typeofJs v \<noteq> ''string''"
    then show "fromFiles env scanDir = Inl (InvalidModuleError
               (''Default export function in '' @ joinPath env (resolve env scanDir) rel
                @ '' for +page.tsx did not return a string.''))"
      using pf callable by (cases v) (simp_all add: pageHandle_def Let_def)
  qed
  from 1 2 show ?thesis by (rule conjI)
qed

theorem page_function_failures_witness:
  "fromFiles (exampleEnv [''badtype'', ''badtype/+page.tsx'', ''later'', ''later/+page.tsx'']
                [(''/routes/badtype/+page.tsx'',
                  Inr [(''default'', JsFunction (Returns (JsObject [(''foo'', JsString ''bar'')])))]),
                 (''/routes/later/+page.tsx'', Inr [(''default'', JsString ''Later'')])])
             ''/routes''
     = Inl (InvalidModuleError
         ''Default export function in /routes/badtype/+page.tsx for +page.tsx did not return a string.'')
   \<and> fromFiles (exampleEnv [''throwing'', ''throwing/+page.tsx'']
                [(''/routes/throwing/+page.tsx'',
                  Inr [(''default'', JsFunction (Throws (JsErrorObject ''boom'')))])])
             ''/routes''
     = Inl (InvalidModuleError
         ''Error executing default export function in /routes/throwing/+page.tsx for +page.tsx: boom'')"
proof -
  let ?m1 = "[(''default'', JsFunction (Returns (JsObject [(''foo'', JsString ''bar'')])))]"
  let ?e1 = "exampleEnv [''badtype'', ''badtype/+page.tsx'', ''later'', ''later/+page.tsx'']
               [(''/routes/badtype/+page.tsx'', Inr ?m1),
                (''/routes/later/+page.tsx'', Inr [(''default'', JsString ''Later'')])]"
  let ?m2 = "[(''default'', JsFunction (Throws (JsErrorObject ''boom'')))]"
  let ?e2 = "exampleEnv [''throwing'', ''throwing/+page.tsx'']
               [(''/routes/throwing/+page.tsx'', Inr ?m2)]"
  have l1: "readDirectory ?e1 (resolve ?e1 ''/routes'')
              = Inr ([''badtype''] @ ''badtype/+page.tsx'' # [''later'', ''later/+page.tsx''])"
    by (simp add: exampleEnv_def)
  have b1: "fromFilesLoop ?e1 (resolve ?e1 ''/routes'') [] [''badtype''] = Inr []" by code_simp
  have r1: "extractRoute ''badtype/+page.tsx'' = Inr (Some [Literal ''badtype'', PageHandle tsx])"
    by code_simp
  have p1: "last [Literal ''badtype'', PageHandle tsx] = PageHandle tsx" by simp
  have i1: "importModule ?e1 (joinPath ?e1 (resolve ?e1 ''/routes'') ''badtype/+page.tsx'') = Inr ?m1"
    by code_simp
  have f1: "typeofJs (moduleGet ?m1 ''default'') = ''function''" by code_simp
  have o1: "call (moduleGet ?m1 ''default'') = Returns (JsObject [(''foo'', JsString ''bar'')])
            \<and> typeofJs (JsObject [(''foo'', JsString ''bar'')]) \<noteq> ''string''" by code_simp
  have g1: "(Inl (InvalidModuleError
               (''Default export function in '' @ joinPath ?e1 (resolve ?e1 ''/routes'') ''badtype/+page.tsx''
                @ '' for +page.tsx did not return a string.'')) :: BuildFailure + Router)
            = Inl (InvalidModuleError
         ''Default export function in /routes/badtype/+page.tsx for +page.tsx did not return a string.'')"
    by code_simp
  have c1: "fromFiles ?e1 ''/routes'' = Inl (InvalidModuleError
         ''Default export function in /routes/badtype/+page.tsx for +page.tsx did not return a string.'')"
    using page_function_failures [OF l1 b1 r1 p1 i1 f1, THEN conjunct2, rule_format, OF o1] g1
    by (rule trans)
  have l2: "readDirectory ?e2 (resolve ?e2 ''/routes'')
              = Inr ([''throwing''] @ ''throwing/+page.tsx'' # [])"
    by (simp add: exampleEnv_def)
  have b2: "fromFilesLoop ?e2 (resolve ?e2 ''/routes'') [] [''throwing''] = Inr []" by code_simp
  have r2: "extractRoute ''throwing/+page.tsx'' = Inr (Some [Literal ''throwing'', PageHandle tsx])"
    by code_simp
  have p2: "last [Literal ''throwing'', PageHandle tsx] = PageHandle tsx" by simp
  have i2: "importModule ?e2 (joinPath ?e2 (resolve ?e2 ''/routes'') ''throwing/+page.tsx'') = Inr ?m2"
    by code_simp
  have f2: "typeofJs (moduleGet ?m2 ''default'') = ''function''" by code_simp
  have o2: "call (moduleGet ?m2 ''default'') = Throws (JsErrorObject ''boom'')" by code_simp
  have g2: "(Inl (InvalidModuleError
               (''Error executing default export function in ''
                @ joinPath ?e2 (resolve ?e2 ''/routes'') ''throwing/+page.tsx''
                @ '' for +page.tsx: '' @ errorText ?e2 (JsErrorObject ''boom''))) :: BuildFailure + Router)
            = Inl (InvalidModuleError
         ''Error executing default export function in /routes/throwing/+page.tsx for +page.tsx: boom'')"
    by code_simp
  have c2: "fromFiles ?e2 ''/routes'' = Inl (InvalidModuleError
         ''Error executing default export function in /routes/throwing/+page.tsx for +page.tsx: boom'')"
    using page_function_failures [OF l2 b2 r2 p2 i2 f2, THEN conjunct1, rule_format, OF o2] g2
    by (rule trans)
  from c1 c2 show ?thesis by (rule conjI)
qed

section \<open>Import failures\<close>

text \<open>
  C9. When the build reaches a route file and the import of its module fails, the build
  fails with an ImportError that carries the value the import failed with, unchanged, and
  the absolute path of the file; the files after it are not processed and no router is
  returned.
\<close>

theorem import_failure_fatal:
  assumes listing: "readDirectory env (resolve env scanDir) = Inr (pre @ rel # post)"
      and before: "fromFilesLoop env (resolve env scanDir) [] pre = Inr router"
      and route: "extractRoute rel = Inr (Some segs)"
      and failed: "importModule env (joinPath env (resolve env scanDir) rel) = Inl cause"
  shows "fromFiles env scanDir
           = Inl (ImportError cause (joinPath env (resolve env scanDir) rel))"
  using fromFiles_at [OF listing before]
        processFile_route [OF route, of env "resolve env scanDir" router]
  by (simp add: failed)

theorem import_failure_fatal_witness:
  "fromFiles (exampleEnv [''broken'', ''broken/+server.ts'', ''+page.tsx'']
                [(''/routes/broken/+server.ts'', Inl (JsErrorObject ''Unexpected identifier'')),
                 (''/routes/+page.tsx'', Inr [(''default'', JsString ''Hello Root'')])])
             ''/routes''
     = Inl (ImportError (JsErrorObject ''Unexpected identifier'') ''/routes/broken/+server.ts'')"
proof -
  let ?e = "exampleEnv [''broken'', ''broken/+server.ts'', ''+page.tsx'']
              [(''/routes/broken/+server.ts'', Inl (JsErrorObject ''Unexpected identifier'')),
               (''/routes/+page.tsx'', Inr [(''default'', JsString ''Hello Root'')])]"
  have l: "readDirectory ?e (resolve ?e ''/routes'')
             = Inr ([''broken''] @ ''broken/+server.ts'' # [''+page.tsx''])"
    by (simp add: exampleEnv_def)
  have b: "fromFilesLoop ?e (resolve ?e ''/routes'') [] [''broken''] = Inr []" by code_simp
  have r: "extractRoute ''broken/+server.ts'' = Inr (Some [Literal ''broken'', ServerHandle ts])"
    by code_simp
  have i: "importModule ?e (joinPath ?e (resolve ?e ''/routes'') ''broken/+server.ts'')
             = Inl (JsErrorObject ''Unexpected identifier'')"
    by code_simp
  have g: "(Inl (ImportError (JsErrorObject ''Unexpected identifier'')
                  (joinPath ?e (resolve ?e ''/routes'') ''broken/+server.ts'')) :: BuildFailure + Router)
           = Inl (ImportError (JsErrorObject ''Unexpected identifier'') ''/routes/broken/+server.ts'')"
    by code_simp
  show ?thesis using import_failure_fatal [OF l b r i] g by (rule trans)
qed

end
